theory Spec2Isabelle
  imports Complex_Main "HOL-Library.Sublist"
begin

section \<open>Numbers\<close>

text \<open>
  A JavaScript \<^verbatim>\<open>number\<close> is an IEEE 754 binary64 value: a finite value, modelled by the
  rational it denotes, one of the two infinities, or NaN. The sign of zero, which no
  operation of the component observes, is not modelled.

  \<open>fl64\<close> rounds a rational to the nearest binary64 value, ties to even: 53 significant
  bits, least exponent \<open>-1074\<close> (gradual underflow); a result that reaches \<open>2^1024\<close> is
  an infinity. The arithmetic operators of the source are the exact operations followed
  by \<open>fl64\<close>, with the rules of IEEE 754 for infinities and NaN.

  Page numbers, page sizes, indices and clock readings in milliseconds are integers far
  below \<open>2^53\<close>, where binary64 arithmetic is exact; they are modelled as \<open>int\<close>.
\<close>

datatype number = Finite rat | PosInfinity | NegInfinity | NaN

function bitlen :: "int \<Rightarrow> int" where
  "bitlen n = (if n \<le> 0 then 0 else 1 + bitlen (n div 2))"
  by pat_completeness auto
termination
  by (relation "measure nat") auto

declare bitlen.simps [simp del]

definition pow2 :: "int \<Rightarrow> rat" where
  "pow2 k = (if 0 \<le> k then of_int (2 ^ nat k) else 1 / of_int (2 ^ nat (- k)))"

text \<open>\<open>floor_log2 x\<close> is the \<open>k\<close> with \<open>2^k \<le> x < 2^(k+1)\<close>, for \<open>x > 0\<close>.\<close>

definition floor_log2 :: "rat \<Rightarrow> int" where
  "floor_log2 x =
     (let (n, d) = quotient_of x;
          k = bitlen n - bitlen d
      in if pow2 k \<le> x then k else k - 1)"

definition round_half_even :: "rat \<Rightarrow> int" where
  "round_half_even q =
     (let f = \<lfloor>q\<rfloor>; r = q - of_int f
      in if r < 1 / 2 then f else if 1 / 2 < r then f + 1 else if even f then f else f + 1)"

definition round_pos :: "rat \<Rightarrow> rat" where
  "round_pos x =
     (let e = max (floor_log2 x - 52) (- 1074);
          ulp = pow2 e
      in of_int (round_half_even (x / ulp)) * ulp)"

definition fl64 :: "rat \<Rightarrow> number" where
  "fl64 x =
     (if x = 0 then Finite 0
      else if x < 0 then (let r = round_pos (- x) in if 2 ^ 1024 \<le> \<lfloor>r\<rfloor> then NegInfinity else Finite (- r))
      else (let r = round_pos x in if 2 ^ 1024 \<le> \<lfloor>r\<rfloor> then PosInfinity else Finite r))"

text \<open>Unary minus, \<^verbatim>\<open>+\<close>, \<^verbatim>\<open>-\<close>, \<^verbatim>\<open>*\<close> and \<^verbatim>\<open><=\<close> on numbers.\<close>

fun js_neg :: "number \<Rightarrow> number" where
  "js_neg (Finite a) = Finite (- a)"
| "js_neg PosInfinity = NegInfinity"
| "js_neg NegInfinity = PosInfinity"
| "js_neg NaN = NaN"

fun js_add :: "number \<Rightarrow> number \<Rightarrow> number" where
  "js_add (Finite a) (Finite b) = fl64 (a + b)"
| "js_add NaN _ = NaN"
| "js_add _ NaN = NaN"
| "js_add PosInfinity NegInfinity = NaN"
| "js_add NegInfinity PosInfinity = NaN"
| "js_add PosInfinity _ = PosInfinity"
| "js_add _ PosInfinity = PosInfinity"
| "js_add NegInfinity _ = NegInfinity"
| "js_add _ NegInfinity = NegInfinity"

definition js_sub :: "number \<Rightarrow> number \<Rightarrow> number" where
  "js_sub a b = js_add a (js_neg b)"

fun js_mul :: "number \<Rightarrow> number \<Rightarrow> number" where
  "js_mul (Finite a) (Finite b) = fl64 (a * b)"
| "js_mul NaN _ = NaN"
| "js_mul _ NaN = NaN"
| "js_mul (Finite a) PosInfinity = (if a = 0 then NaN else if 0 < a then PosInfinity else NegInfinity)"
| "js_mul (Finite a) NegInfinity = (if a = 0 then NaN else if 0 < a then NegInfinity else PosInfinity)"
| "js_mul PosInfinity (Finite b) = (if b = 0 then NaN else if 0 < b then PosInfinity else NegInfinity)"
| "js_mul NegInfinity (Finite b) = (if b = 0 then NaN else if 0 < b then NegInfinity else PosInfinity)"
| "js_mul PosInfinity PosInfinity = PosInfinity"
| "js_mul PosInfinity NegInfinity = NegInfinity"
| "js_mul NegInfinity PosInfinity = NegInfinity"
| "js_mul NegInfinity NegInfinity = PosInfinity"

fun js_le :: "number \<Rightarrow> number \<Rightarrow> bool" where
  "js_le (Finite a) (Finite b) = (a \<le> b)"
| "js_le NaN _ = False"
| "js_le _ NaN = False"
| "js_le NegInfinity _ = True"
| "js_le _ PosInfinity = True"
| "js_le PosInfinity _ = False"
| "js_le _ NegInfinity = False"

text \<open>\<open>v > 0\<close>, as a sort reads the result of its comparator (NaN counts as 0).\<close>

fun positive :: "number \<Rightarrow> bool" where
  "positive (Finite a) = (0 < a)"
| "positive PosInfinity = True"
| "positive NegInfinity = False"
| "positive NaN = False"


text \<open>\<^verbatim>\<open>Number.prototype.toString()\<close> on an integer: its decimal digits.\<close>

function digits :: "int \<Rightarrow> string" where
  "digits n = (if n < 10 then [''0123456789'' ! nat n] else digits (n div 10) @ [''0123456789'' ! nat (n mod 10)])"
  by pat_completeness auto
termination
  by (relation "measure nat") auto

declare digits.simps [simp del]

definition toString :: "int \<Rightarrow> string" where
  "toString n = (if n < 0 then CHR ''-'' # digits (- n) else digits n)"

section \<open>Data model (types.ts)\<close>

text \<open>
  \<^verbatim>\<open>NewInventoryItem = Omit<InventoryItem, 'id' | 'lastUpdated'>\<close>: the record of an
  \<^verbatim>\<open>InventoryItem\<close> extends the record of a \<^verbatim>\<open>NewInventoryItem\<close> by the two omitted
  fields (\<^verbatim>\<open>id\<close> is written \<open>item_id\<close>).
\<close>

record NewInventoryItem =
  name :: string
  quantity :: number
  price :: number
  category :: string
  sku :: string

record InventoryItem = NewInventoryItem +
  item_id :: string
  lastUpdated :: string

text \<open>\<^verbatim>\<open>keyof InventoryItem\<close>\<close>

datatype ItemKey = KId | KName | KQuantity | KPrice | KCategory | KSku | KLastUpdated

datatype Direction = Ascending | Descending

record SortConfig =
  key :: "ItemKey option"
  direction :: Direction

text \<open>\<^verbatim>\<open>ItemsPerPage = 10 | 25 | 50\<close>\<close>

definition ItemsPerPage :: "int set" where
  "ItemsPerPage = {10, 25, 50}"

text \<open>The values a field read \<^verbatim>\<open>a[sortConfig.key]\<close> can have at run time.\<close>

datatype JsValue = JNumber number | JString string | JBoolean bool | JNull | JUndefined

fun typeof :: "JsValue \<Rightarrow> string" where
  "typeof (JNumber _) = ''number''"
| "typeof (JString _) = ''string''"
| "typeof (JBoolean _) = ''boolean''"
| "typeof JNull = ''object''"
| "typeof JUndefined = ''undefined''"

fun getField :: "ItemKey \<Rightarrow> InventoryItem \<Rightarrow> JsValue" where
  "getField KId item = JString (item_id item)"
| "getField KName item = JString (name item)"
| "getField KQuantity item = JNumber (quantity item)"
| "getField KPrice item = JNumber (price item)"
| "getField KCategory item = JString (category item)"
| "getField KSku item = JString (sku item)"
| "getField KLastUpdated item = JString (lastUpdated item)"

section \<open>Built-ins of the platform\<close>

text \<open>
  \<^verbatim>\<open>String.prototype.toLowerCase\<close>, \<^verbatim>\<open>String.prototype.localeCompare\<close>,
  \<^verbatim>\<open>Date.prototype.toISOString\<close>, \<^verbatim>\<open>JSON.stringify\<close> and \<^verbatim>\<open>JSON.parse\<close> are
  parameters of the functions below (\<open>toLowerCase\<close>, \<open>localeCompare\<close>, \<open>toISOString\<close>,
  \<open>stringify\<close>, \<open>parse\<close>), so every theorem holds for whatever the platform computes.
  \<^verbatim>\<open>JSON.parse\<close> throws, or returns an array, or returns another value; an array under the
  key of the items is taken to hold inventory items (the component stores nothing else
  there).
\<close>

datatype Parsed = ParseThrows | ParsedArray "InventoryItem list" | ParsedOther

text \<open>\<^verbatim>\<open>s.includes(t)\<close>: \<open>t\<close> occurs in \<open>s\<close> as a contiguous run of code units.\<close>

fun str_includes :: "string \<Rightarrow> string \<Rightarrow> bool" where
  "str_includes [] t = (t = [])"
| "str_includes (c # s) t = (prefix t (c # s) \<or> str_includes s t)"

text \<open>
  \<^verbatim>\<open>Array.prototype.slice(start, end)\<close> with integer arguments: a negative argument
  counts from the end of the array, both are clamped to \<open>[0, len]\<close>.
\<close>

definition slice :: "'a list \<Rightarrow> int \<Rightarrow> int \<Rightarrow> 'a list" where
  "slice xs start end' =
     (let len = int (length xs);
          k = (if start < 0 then max (len + start) 0 else min start len);
          final = (if end' < 0 then max (len + end') 0 else min end' len);
          count = max (final - k) 0
      in take (nat count) (drop (nat k) xs))"

text \<open>
  \<^verbatim>\<open>Array.prototype.sort(comparefn)\<close> is a stable sort (ECMAScript 2019 and later): an
  element is placed in front of the first element it does not compare greater than,
  where a result NaN of the comparator counts as 0.
  It is modelled as insertion from the right end of the array, which makes exactly that
  placement; for a consistent comparator every conforming engine returns this list.
\<close>

fun insort_cmp :: "('a \<Rightarrow> 'a \<Rightarrow> number) \<Rightarrow> 'a \<Rightarrow> 'a list \<Rightarrow> 'a list" where
  "insort_cmp cmp x [] = [x]"
| "insort_cmp cmp x (y # ys) = (if positive (cmp x y) then y # insort_cmp cmp x ys else x # y # ys)"

definition array_sort :: "('a \<Rightarrow> 'a \<Rightarrow> number) \<Rightarrow> 'a list \<Rightarrow> 'a list" where
  "array_sort cmp xs = foldr (insort_cmp cmp) xs []"

text \<open>
  \<^verbatim>\<open>localStorage\<close>: the list of \<^verbatim>\<open>setItem\<close> calls, most recent first, in front of the
  entries present when the page was opened. The store is taken to be available and to
  have room: \<^verbatim>\<open>getItem\<close> and \<^verbatim>\<open>setItem\<close> do not throw.
\<close>

type_synonym storage = "(string \<times> string) list"

definition getItem :: "string \<Rightarrow> storage \<Rightarrow> string option" where
  "getItem k ls = map_of ls k"

definition setItem :: "string \<Rightarrow> string \<Rightarrow> storage \<Rightarrow> storage" where
  "setItem k v ls = (k, v) # ls"

section \<open>The component (App)\<close>

text \<open>
  The sample data, a constant of the module. Each \<^verbatim>\<open>lastUpdated\<close> is computed from a
  reading of the clock made when the module is evaluated (\<open>t0 k\<close> is the \<open>k\<close>-th
  reading, in milliseconds). The literal \<^verbatim>\<open>25.99\<close> denotes the nearest binary64
  value; the other numbers are exactly representable.
\<close>

definition initialItems :: "(int \<Rightarrow> string) \<Rightarrow> (nat \<Rightarrow> int) \<Rightarrow> InventoryItem list" where
  "initialItems toISOString t0 =
   [\<lparr>name = ''Laptop Pro 15\"'', quantity = Finite 5, price = Finite 1200, category = ''Electronics'',
      sku = ''LP15-001'', item_id = ''1'', lastUpdated = toISOString (t0 0 - 86400000 * 2)\<rparr>,
    \<lparr>name = ''Wireless Mouse'', quantity = Finite 150, price = fl64 (2599 / 100), category = ''Accessories'',
      sku = ''WM-002'', item_id = ''2'', lastUpdated = toISOString (t0 1 - 86400000)\<rparr>,
    \<lparr>name = ''Mechanical Keyboard'', quantity = Finite 8, price = Finite (159 / 2), category = ''Accessories'',
      sku = ''MK-003'', item_id = ''3'', lastUpdated = toISOString (t0 2)\<rparr>,
    \<lparr>name = ''Office Chair Ergonomic'', quantity = Finite 30, price = Finite 250, category = ''Furniture'',
      sku = ''OC-004'', item_id = ''4'', lastUpdated = toISOString (t0 3 - 86400000 * 5)\<rparr>,
    \<lparr>name = ''27\" 4K Monitor'', quantity = Finite 15, price = Finite 350, category = ''Electronics'',
      sku = ''MON27-4K'', item_id = ''5'', lastUpdated = toISOString (t0 4 - 86400000 * 1)\<rparr>,
    \<lparr>name = ''USB-C Hub'', quantity = Finite 60, price = Finite 35, category = ''Accessories'',
      sku = ''USBC-HUB-01'', item_id = ''6'', lastUpdated = toISOString (t0 5 - 86400000 * 3)\<rparr>,
    \<lparr>name = ''Standing Desk'', quantity = Finite 12, price = Finite 450, category = ''Furniture'',
      sku = ''STD-DSK-001'', item_id = ''7'', lastUpdated = toISOString (t0 6 - 86400000 * 10)\<rparr>]"

definition LOW_STOCK_THRESHOLD :: number where
  "LOW_STOCK_THRESHOLD = Finite 10"

text \<open>
  The state of the component: one field for each \<^verbatim>\<open>useState\<close>. \<open>inventoryItemsRef\<close> is
  the identity of the array object held in \<open>inventoryItems\<close>: React compares the
  dependencies of an effect with \<^verbatim>\<open>Object.is\<close>. The constant \<^verbatim>\<open>initialItems\<close> is the
  object 0 and the array of \<^verbatim>\<open>useState([])\<close> the object 1; an array made by \<^verbatim>\<open>map\<close>,
  \<^verbatim>\<open>filter\<close>, a spread or \<^verbatim>\<open>JSON.parse\<close> is a new object, numbered one above the
  object it replaces in the state.
\<close>

record App =
  inventoryItems :: "InventoryItem list"
  inventoryItemsRef :: nat
  isLoading :: bool
  searchTerm :: string
  isModalOpen :: bool
  editingItem :: "InventoryItem option"
  darkMode :: bool
  sortConfig :: SortConfig
  currentPage :: int
  itemsPerPage :: int
  selectedCategory :: string
  isDeleteConfirmModalOpen :: bool
  itemToDelete :: "(string \<times> string) option"

text \<open>The initial values of the \<^verbatim>\<open>useState\<close> calls.\<close>

definition initialState :: App where
  "initialState =
     \<lparr>inventoryItems = [], inventoryItemsRef = 1, isLoading = True, searchTerm = [],
      isModalOpen = False, editingItem = None, darkMode = False,
      sortConfig = \<lparr>key = Some KLastUpdated, direction = Descending\<rparr>,
      currentPage = 1, itemsPerPage = 10, selectedCategory = [],
      isDeleteConfirmModalOpen = False, itemToDelete = None\<rparr>"

definition setInventoryItems :: "(InventoryItem list \<Rightarrow> InventoryItem list) \<Rightarrow> App \<Rightarrow> App" where
  "setInventoryItems f s =
     s\<lparr>inventoryItems := f (inventoryItems s), inventoryItemsRef := Suc (inventoryItemsRef s)\<rparr>"

text \<open>\<^verbatim>\<open>setInventoryItems(initialItems)\<close>: the state holds the constant itself.\<close>

definition setInitialItems :: "InventoryItem list \<Rightarrow> App \<Rightarrow> App" where
  "setInitialItems seed s = s\<lparr>inventoryItems := seed, inventoryItemsRef := 0\<rparr>"

subsection \<open>Loading, theme and saving\<close>


text \<open>
  The callback of the \<^verbatim>\<open>setTimeout\<close> in the first effect. \<^verbatim>\<open>if (storedItems)\<close> fails for
  \<^verbatim>\<open>null\<close> and for the empty string; an exception of \<^verbatim>\<open>JSON.parse\<close> is caught. When
  \<^verbatim>\<open>JSON.parse\<close> returns a value that is not an array, that value becomes the state: the
  next render evaluates \<^verbatim>\<open>[...inventoryItems]\<close> and \<^verbatim>\<open>inventoryItems.reduce\<close>, one of which
  throws for every such value, and the component is unmounted. The result is then \<open>None\<close>.
\<close>

definition loadItems ::
  "(string \<Rightarrow> Parsed) \<Rightarrow> InventoryItem list \<Rightarrow> storage \<Rightarrow> App \<Rightarrow> App option" where
  "loadItems parse seed ls s =
     (let storedItems = getItem ''inventoryItems'' ls;
          s1 = (case storedItems of
                  None \<Rightarrow> Some (setInitialItems seed s)
                | Some str \<Rightarrow>
                    if str \<noteq> [] then
                      (case parse str of
                         ParsedArray items \<Rightarrow> Some (setInventoryItems (\<lambda>_. items) s)
                       | ParseThrows \<Rightarrow> Some (setInitialItems seed s)
                       | ParsedOther \<Rightarrow> None)
                    else Some (setInitialItems seed s))
      in map_option (\<lambda>s1. s1\<lparr>isLoading := False\<rparr>) s1)"

text \<open>
  The second effect, with dependencies \<^verbatim>\<open>[inventoryItems, isLoading]\<close>: after a render
  in which one of them has changed, it writes the collection unless it is loading.
\<close>

definition saveItemsEffect ::
  "(InventoryItem list \<Rightarrow> string) \<Rightarrow> App \<Rightarrow> App \<Rightarrow> storage \<Rightarrow> storage" where
  "saveItemsEffect stringify prev next ls =
     (if inventoryItemsRef next \<noteq> inventoryItemsRef prev \<or> isLoading next \<noteq> isLoading prev
      then (if \<not> isLoading next
            then setItem ''inventoryItems'' (stringify (inventoryItems next)) ls
            else ls)
      else ls)"

text \<open>\<^verbatim>\<open>toggleDarkMode\<close> (the class of the document element is not modelled).\<close>

definition toggleDarkMode :: "App \<Rightarrow> storage \<Rightarrow> App \<times> storage" where
  "toggleDarkMode s ls =
     (let newMode = \<not> darkMode s
      in (s\<lparr>darkMode := newMode\<rparr>,
          if newMode then setItem ''theme'' ''dark'' ls else setItem ''theme'' ''light'' ls))"

subsection \<open>Item CRUD operations\<close>

text \<open>
  \<^verbatim>\<open>'id' in itemData\<close> tells an \<^verbatim>\<open>InventoryItem\<close> from a \<^verbatim>\<open>NewInventoryItem\<close>.
  \<open>dateNow\<close> is the value of \<^verbatim>\<open>Date.now()\<close>, and \<open>newDate k\<close> the time value of the
  \<open>k\<close>-th \<^verbatim>\<open>new Date()\<close> of the call, counted from 0, both in milliseconds.
\<close>

datatype ItemData = NewItem NewInventoryItem | ExistingItem InventoryItem

text \<open>
  The \<^verbatim>\<open>prevItems.map(...)\<close> of the edit branch. Its callback evaluates \<^verbatim>\<open>new Date()\<close>
  for each item with the id of the input; \<open>k\<close> is the number of evaluations so far.
\<close>

fun mapEdited ::
  "(int \<Rightarrow> string) \<Rightarrow> (nat \<Rightarrow> int) \<Rightarrow> InventoryItem \<Rightarrow> nat \<Rightarrow> InventoryItem list \<Rightarrow> InventoryItem list" where
  "mapEdited toISOString newDate edited k [] = []"
| "mapEdited toISOString newDate edited k (item # prevItems) =
     (if item_id item = item_id edited
      then edited\<lparr>lastUpdated := toISOString (newDate k)\<rparr>
             # mapEdited toISOString newDate edited (Suc k) prevItems
      else item # mapEdited toISOString newDate edited k prevItems)"

definition handleItemFormSubmit ::
  "(int \<Rightarrow> string) \<Rightarrow> int \<Rightarrow> (nat \<Rightarrow> int) \<Rightarrow> ItemData \<Rightarrow> App \<Rightarrow> App" where
  "handleItemFormSubmit toISOString dateNow newDate itemData s =
     (let s1 =
        (case itemData of
           ExistingItem edited \<Rightarrow>
             setInventoryItems (\<lambda>prevItems. mapEdited toISOString newDate edited 0 prevItems) s
         | NewItem payload \<Rightarrow>
             (let newItem = \<lparr>name = name payload, quantity = quantity payload,
                             price = price payload, category = category payload,
                             sku = sku payload, item_id = toString dateNow,
                             lastUpdated = toISOString (newDate 0)\<rparr>
              in setInventoryItems (\<lambda>prevItems. newItem # prevItems) s))
      in s1\<lparr>isModalOpen := False, editingItem := None\<rparr>)"

definition handleDeleteRequest :: "string \<Rightarrow> string \<Rightarrow> App \<Rightarrow> App" where
  "handleDeleteRequest itemId itemName s =
     s\<lparr>itemToDelete := Some (itemId, itemName), isDeleteConfirmModalOpen := True\<rparr>"

definition confirmDeleteItem :: "App \<Rightarrow> App" where
  "confirmDeleteItem s =
     (let s1 = (case itemToDelete s of
                  Some (itemId, itemName) \<Rightarrow>
                    setInventoryItems (\<lambda>prevItems. filter (\<lambda>item. item_id item \<noteq> itemId) prevItems) s
                | None \<Rightarrow> s)
      in s1\<lparr>isDeleteConfirmModalOpen := False, itemToDelete := None\<rparr>)"

subsection \<open>Modal handling\<close>

definition openAddModal :: "App \<Rightarrow> App" where
  "openAddModal s = s\<lparr>editingItem := None, isModalOpen := True\<rparr>"

definition openEditModal :: "InventoryItem \<Rightarrow> App \<Rightarrow> App" where
  "openEditModal item s = s\<lparr>editingItem := Some item, isModalOpen := True\<rparr>"

definition closeModal :: "App \<Rightarrow> App" where
  "closeModal s = s\<lparr>isModalOpen := False, editingItem := None\<rparr>"

subsection \<open>Filtering, sorting, pagination\<close>

text \<open>
  The comparator passed to \<^verbatim>\<open>items.sort\<close>, on the two values read from the items:
  the \<^verbatim>\<open>typeof\<close> tests choose the comparison, and \<open>comparison\<close> stays \<open>0\<close> when neither
  test succeeds.
\<close>

definition compareValues ::
  "(string \<Rightarrow> string \<Rightarrow> number) \<Rightarrow> Direction \<Rightarrow> JsValue \<Rightarrow> JsValue \<Rightarrow> number" where
  "compareValues localeCompare dir valA valB =
     (let comparison =
        (case (valA, valB) of
           (JNumber a, JNumber b) \<Rightarrow> js_sub a b
         | (JString a, JString b) \<Rightarrow> localeCompare a b
         | _ \<Rightarrow> Finite 0)
      in if dir = Ascending then comparison else js_neg comparison)"

definition sortComparator ::
  "(string \<Rightarrow> string \<Rightarrow> number) \<Rightarrow> Direction \<Rightarrow> ItemKey \<Rightarrow> InventoryItem \<Rightarrow> InventoryItem \<Rightarrow> number" where
  "sortComparator localeCompare dir k a b =
     compareValues localeCompare dir (getField k a) (getField k b)"

text \<open>A function of the dependencies of its \<^verbatim>\<open>useMemo\<close>.\<close>

definition filteredAndSortedItems ::
  "(string \<Rightarrow> string) \<Rightarrow> (string \<Rightarrow> string \<Rightarrow> number) \<Rightarrow>
   InventoryItem list \<Rightarrow> string \<Rightarrow> string \<Rightarrow> SortConfig \<Rightarrow> InventoryItem list" where
  "filteredAndSortedItems toLowerCase localeCompare inventoryItems' searchTerm' selectedCategory' sortConfig' =
     (let items = inventoryItems';
          items = (if searchTerm' \<noteq> [] then
                     filter (\<lambda>item.
                        str_includes (toLowerCase (name item)) (toLowerCase searchTerm') \<or>
                        str_includes (toLowerCase (sku item)) (toLowerCase searchTerm') \<or>
                        str_includes (toLowerCase (category item)) (toLowerCase searchTerm')) items
                   else items);
          items = (if selectedCategory' \<noteq> [] then
                     filter (\<lambda>item. category item = selectedCategory') items
                   else items);
          items = (case key sortConfig' of
                     Some k \<Rightarrow> array_sort (sortComparator localeCompare (direction sortConfig') k) items
                   | None \<Rightarrow> items)
      in items)"

definition paginatedItems :: "InventoryItem list \<Rightarrow> int \<Rightarrow> int \<Rightarrow> InventoryItem list" where
  "paginatedItems filteredAndSorted currentPage' itemsPerPage' =
     (let startIndex = (currentPage' - 1) * itemsPerPage'
      in slice filteredAndSorted startIndex (startIndex + itemsPerPage'))"

definition requestSort :: "ItemKey \<Rightarrow> App \<Rightarrow> App" where
  "requestSort k s =
     (let dir = (if key (sortConfig s) = Some k \<and> direction (sortConfig s) = Ascending
                 then Descending else Ascending)
      in s\<lparr>sortConfig := \<lparr>key = Some k, direction = dir\<rparr>, currentPage := 1\<rparr>)"

definition handleCategoryChange :: "string \<Rightarrow> App \<Rightarrow> App" where
  "handleCategoryChange c s = s\<lparr>selectedCategory := c, currentPage := 1\<rparr>"

definition onItemsPerPageChange :: "int \<Rightarrow> App \<Rightarrow> App" where
  "onItemsPerPageChange newSize s = s\<lparr>itemsPerPage := newSize, currentPage := 1\<rparr>"

subsection \<open>Dashboard statistics\<close>

text \<open>
  Each is computed from \<^verbatim>\<open>inventoryItems\<close>, the collection held in the state of the
  component, and from nothing else of the state.
\<close>

definition totalItemsInStock :: "App \<Rightarrow> number" where
  "totalItemsInStock s = foldl (\<lambda>sum item. js_add sum (quantity item)) (Finite 0) (inventoryItems s)"

definition uniqueProductSKUs :: "App \<Rightarrow> nat" where
  "uniqueProductSKUs s = length (inventoryItems s)"

definition totalInventoryValue :: "App \<Rightarrow> number" where
  "totalInventoryValue s =
     foldl (\<lambda>sum item. js_add sum (js_mul (quantity item) (price item))) (Finite 0) (inventoryItems s)"

definition lowStockItemsCount :: "App \<Rightarrow> nat" where
  "lowStockItemsCount s =
     length (filter (\<lambda>item. js_le (quantity item) LOW_STOCK_THRESHOLD) (inventoryItems s))"

subsection \<open>Events\<close>

text \<open>
  What happens to the component after it is mounted: the timer of the first effect
  fires, or the presentation layer calls one of the handlers. After the state update of
  an event the component renders again and the effect that saves the items runs. On
  mounting, that effect runs with \<^verbatim>\<open>isLoading\<close> true and writes nothing. A component
  whose render has thrown is unmounted: no effect runs and no handler can be called.
\<close>

datatype Action =
    ItemFormSubmit int "nat \<Rightarrow> int" ItemData
  | DeleteRequest string string
  | ConfirmDelete
  | OpenAddModal
  | OpenEditModal InventoryItem
  | CloseModal
  | SetSearchTerm string
  | RequestSort ItemKey
  | CategoryChange string
  | SetCurrentPage int
  | ItemsPerPageChange int
  | ToggleDarkMode

datatype Event = LoadTimeout | User Action

datatype Component = Mounted App | Crashed

fun handler :: "(int \<Rightarrow> string) \<Rightarrow> Action \<Rightarrow> App \<Rightarrow> storage \<Rightarrow> App \<times> storage" where
  "handler toISOString (ItemFormSubmit dateNow newDate itemData) s ls =
     (handleItemFormSubmit toISOString dateNow newDate itemData s, ls)"
| "handler toISOString (DeleteRequest itemId itemName) s ls = (handleDeleteRequest itemId itemName s, ls)"
| "handler toISOString ConfirmDelete s ls = (confirmDeleteItem s, ls)"
| "handler toISOString OpenAddModal s ls = (openAddModal s, ls)"
| "handler toISOString (OpenEditModal item) s ls = (openEditModal item s, ls)"
| "handler toISOString CloseModal s ls = (closeModal s, ls)"
| "handler toISOString (SetSearchTerm term) s ls = (s\<lparr>searchTerm := term\<rparr>, ls)"
| "handler toISOString (RequestSort k) s ls = (requestSort k s, ls)"
| "handler toISOString (CategoryChange c) s ls = (handleCategoryChange c s, ls)"
| "handler toISOString (SetCurrentPage n) s ls = (s\<lparr>currentPage := n\<rparr>, ls)"
| "handler toISOString (ItemsPerPageChange n) s ls = (onItemsPerPageChange n s, ls)"
| "handler toISOString ToggleDarkMode s ls = toggleDarkMode s ls"

fun step ::
  "(string \<Rightarrow> Parsed) \<Rightarrow> (InventoryItem list \<Rightarrow> string) \<Rightarrow> (int \<Rightarrow> string) \<Rightarrow> (nat \<Rightarrow> int) \<Rightarrow>
   Event \<Rightarrow> Component \<times> storage \<Rightarrow> Component \<times> storage" where
  "step parse stringify toISOString t0 e (Crashed, ls) = (Crashed, ls)"
| "step parse stringify toISOString t0 LoadTimeout (Mounted s, ls) =
     (case loadItems parse (initialItems toISOString t0) ls s of
        None \<Rightarrow> (Crashed, ls)
      | Some s' \<Rightarrow> (Mounted s', saveItemsEffect stringify s s' ls))"
| "step parse stringify toISOString t0 (User a) (Mounted s, ls) =
     (case handler toISOString a s ls of
        (s', ls') \<Rightarrow> (Mounted s', saveItemsEffect stringify s s' ls'))"

section \<open>The properties as the specification words them\<close>

text \<open>
  ``\<open>field\<close> contains the term as a case-insensitive substring'': after lowering the
  case of both, the term occurs in the field.
\<close>

definition contains_case_insensitive :: "(string \<Rightarrow> string) \<Rightarrow> string \<Rightarrow> string \<Rightarrow> bool" where
  "contains_case_insensitive toLowerCase field term \<longleftrightarrow>
     (\<exists>pre post. toLowerCase field = pre @ toLowerCase term @ post)"

text \<open>
  ``The sum of \<^verbatim>\<open>quantity * price\<close> across all items'', exactly, for finite quantities
  and prices (\<open>rat_of\<close> is the rational that a finite number denotes).
\<close>

fun rat_of :: "number \<Rightarrow> rat" where
  "rat_of (Finite a) = a"
| "rat_of PosInfinity = 0"
| "rat_of NegInfinity = 0"
| "rat_of NaN = 0"

definition exactInventoryValue :: "InventoryItem list \<Rightarrow> rat" where
  "exactInventoryValue xs = sum_list (map (\<lambda>item. rat_of (quantity item) * rat_of (price item)) xs)"

text \<open>
  No rounding happens while the value of the items is added to \<open>acc\<close>: the quantities
  and prices are finite, and every product and every partial sum is a finite binary64
  value.
\<close>

fun no_rounding :: "rat \<Rightarrow> InventoryItem list \<Rightarrow> bool" where
  "no_rounding acc [] = True"
| "no_rounding acc (x # xs) =
     (case (quantity x, price x) of
        (Finite q, Finite p) \<Rightarrow>
          fl64 (q * p) = Finite (q * p) \<and> fl64 (acc + q * p) = Finite (acc + q * p) \<and>
          no_rounding (acc + q * p) xs
      | _ \<Rightarrow> False)"

section \<open>Instances of the built-ins for the examples\<close>

text \<open>
  The examples below need the built-ins at concrete arguments. These are their values
  on ASCII text, on ordinal comparison of code units, and on dates of the years 0000 to
  9999; \<open>exampleStringify\<close> stands for a serialisation.
\<close>

definition asciiLower :: "string \<Rightarrow> string" where
  "asciiLower s =
     map (\<lambda>c. let n = (of_char c :: nat) in if 65 \<le> n \<and> n \<le> 90 then char_of (n + 32) else c) s"

fun ordinalCompare :: "string \<Rightarrow> string \<Rightarrow> number" where
  "ordinalCompare [] [] = Finite 0"
| "ordinalCompare [] (d # t) = Finite (- 1)"
| "ordinalCompare (c # s) [] = Finite 1"
| "ordinalCompare (c # s) (d # t) =
     (if c = d then ordinalCompare s t else if (of_char c :: nat) < of_char d then Finite (- 1) else Finite 1)"

definition pad :: "nat \<Rightarrow> int \<Rightarrow> string" where
  "pad w n = replicate (w - length (digits n)) CHR ''0'' @ digits n"

definition isoString :: "int \<Rightarrow> string" where
  "isoString t =
     (let days = t div 86400000; ms = t mod 86400000;
          z = days + 719468; era = z div 146097; doe = z mod 146097;
          yoe = (doe - doe div 1460 + doe div 36524 - doe div 146096) div 365;
          doy = doe - (365 * yoe + yoe div 4 - yoe div 100);
          mp = (5 * doy + 2) div 153;
          d = doy - (153 * mp + 2) div 5 + 1;
          m = (if mp < 10 then mp + 3 else mp - 9);
          y = yoe + era * 400 + (if m \<le> 2 then 1 else 0)
      in pad 4 y @ ''-'' @ pad 2 m @ ''-'' @ pad 2 d @ ''T'' @ pad 2 (ms div 3600000) @ '':'' @
         pad 2 (ms div 60000 mod 60) @ '':'' @ pad 2 (ms div 1000 mod 60) @ ''.'' @
         pad 3 (ms mod 1000) @ ''Z'')"



text \<open>A clock that stands still at \<open>t\<close> during a call, and one that advances by a
  millisecond with each reading.\<close>

definition steadyClock :: "int \<Rightarrow> nat \<Rightarrow> int" where
  "steadyClock t k = t"

definition tickingClock :: "int \<Rightarrow> nat \<Rightarrow> int" where
  "tickingClock t k = t + int k"

text \<open>
  The state once the sample data has been loaded at time 0, the store being empty and
  the preference being light, and an item that is not in the collection.
\<close>

definition loadedState :: App where
  "loadedState = initialState\<lparr>inventoryItems := initialItems isoString (steadyClock 0), inventoryItemsRef := 0,
                                isLoading := False\<rparr>"

definition ghostItem :: InventoryItem where
  "ghostItem = \<lparr>name = ''Ghost'', quantity = Finite 1, price = Finite 1, category = ''None'', sku = ''G-0'',
                item_id = ''99'', lastUpdated = isoString 0\<rparr>"

text \<open>An edited copy of the second sample item.\<close>

definition editedMouse :: InventoryItem where
  "editedMouse = \<lparr>name = ''Wireless Mouse v2'', quantity = Finite 140, price = Finite 30,
                  category = ''Accessories'', sku = ''WM-002'', item_id = ''2'', lastUpdated = isoString 0\<rparr>"

text \<open>Two payloads of the form, and the state after the first has been added at the
  clock reading 1700000000000.\<close>

definition lampPayload :: NewInventoryItem where
  "lampPayload = \<lparr>name = ''Desk Lamp'', quantity = Finite 20, price = Finite 45, category = ''Furniture'',
                  sku = ''DL-008''\<rparr>"

definition cablePayload :: NewInventoryItem where
  "cablePayload = \<lparr>name = ''HDMI Cable'', quantity = Finite 200, price = Finite 9, category = ''Accessories'',
                   sku = ''HC-009''\<rparr>"

definition afterFirstCreate :: App where
  "afterFirstCreate =
     handleItemFormSubmit isoString 1700000000000 (steadyClock 1700000000000) (NewItem lampPayload) loadedState"

text \<open>An item with quantity 3 and the price \<^verbatim>\<open>0.1\<close>, which denotes the nearest binary64
  value, and the loaded state with this item as its collection.\<close>

definition tenCentItem :: InventoryItem where
  "tenCentItem = \<lparr>name = ''Sticker'', quantity = Finite 3, price = fl64 (1 / 10), category = ''Accessories'',
                  sku = ''ST-010'', item_id = ''10'', lastUpdated = isoString 0\<rparr>"

definition tenCentState :: App where
  "tenCentState = loadedState\<lparr>inventoryItems := [tenCentItem]\<rparr>"

text \<open>Two items with the quantities \<open>2^53\<close> and 1, and the loaded state with these two
  items as its collection.\<close>

definition bulkItem :: InventoryItem where
  "bulkItem = \<lparr>name = ''Rivet'', quantity = Finite 9007199254740992, price = Finite 0, category = ''Hardware'',
               sku = ''RV-011'', item_id = ''11'', lastUpdated = isoString 0\<rparr>"

definition singleItem :: InventoryItem where
  "singleItem = \<lparr>name = ''Anvil'', quantity = Finite 1, price = Finite 90, category = ''Hardware'',
                 sku = ''AN-012'', item_id = ''12'', lastUpdated = isoString 0\<rparr>"

definition bulkState :: App where
  "bulkState = loadedState\<lparr>inventoryItems := [bulkItem, singleItem]\<rparr>"

text \<open>The state after the second payload has been added at the same clock reading as the
  first, and an edit of the id that the two new items share.\<close>

definition afterSecondCreate :: App where
  "afterSecondCreate =
     handleItemFormSubmit isoString 1700000000000 (steadyClock 1700000000000) (NewItem cablePayload)
       afterFirstCreate"

definition editedTwin :: InventoryItem where
  "editedTwin = \<lparr>name = ''Floor Lamp'', quantity = Finite 18, price = Finite 60, category = ''Furniture'',
                 sku = ''FL-008'', item_id = ''1700000000000'', lastUpdated = isoString 0\<rparr>"

text \<open>The loaded state with the three sample items whose prices are 1200, 79.5 and 250 as
  its collection.\<close>

definition threeItemState :: App where
  "threeItemState = loadedState\<lparr>inventoryItems :=
     [initialItems isoString (steadyClock 0) ! 0, initialItems isoString (steadyClock 0) ! 2, initialItems isoString (steadyClock 0) ! 3]\<rparr>"

text \<open>The loaded state with one item of quantity 2 and price \<open>2^1023\<close> as its
  collection.\<close>

definition hugePriceState :: App where
  "hugePriceState = loadedState\<lparr>inventoryItems :=
     [\<lparr>name = ''Comet'', quantity = Finite 2, price = Finite (of_int (2 ^ 1023)), category = ''Sky'',
       sku = ''CM-013'', item_id = ''13'', lastUpdated = isoString 0\<rparr>]\<rparr>"

section \<open>Numbers: properties\<close>

lemma bitlen_pos: "0 < n \<Longrightarrow> bitlen n = 1 + bitlen (n div 2)"
  by (subst bitlen.simps) simp

lemma bitlen_nonpos: "n \<le> 0 \<Longrightarrow> bitlen n = 0"
  by (subst bitlen.simps) simp

lemma bitlen_one: "bitlen 1 = 1"
  by (simp add: bitlen_pos bitlen_nonpos)

lemma bitlen_bounds: "0 < n \<Longrightarrow> 1 \<le> bitlen n \<and> 2 ^ nat (bitlen n - 1) \<le> n \<and> n < 2 ^ nat (bitlen n)"
proof (induction n rule: bitlen.induct)
  case (1 n)
  show ?case
  proof (cases "n = 1")
    case True
    then show ?thesis by (simp add: bitlen_one)
  next
    case False
    with "1.prems" have h: "0 < n div 2" by simp
    from "1.prems" have "\<not> n \<le> 0" by simp
    from "1.IH" [OF this h] have ih: "1 \<le> bitlen (n div 2)"
      "2 ^ nat (bitlen (n div 2) - 1) \<le> n div 2" "n div 2 < 2 ^ nat (bitlen (n div 2))"
      by simp_all
    let ?b = "bitlen (n div 2)"
    have b: "bitlen n = 1 + ?b" using "1.prems" by (rule bitlen_pos)
    have n1: "nat (1 + ?b - 1) = Suc (nat (?b - 1))" using ih(1) by simp
    have n2: "nat (1 + ?b) = Suc (nat ?b)" using ih(1) by simp
    have "2 * 2 ^ nat (?b - 1) \<le> n" using ih(2) by simp
    moreover have "n < 2 * 2 ^ nat ?b" using ih(3) by simp
    ultimately show ?thesis using ih(1) unfolding b n1 n2 by simp
  qed
qed

lemma round_half_even_of_int: "round_half_even (of_int m) = m"
  by (simp add: round_half_even_def)

text \<open>A positive integer below \<open>2^53\<close> is a binary64 value.\<close>

lemma fl64_of_int_small:
  assumes "0 < n" "n < 2 ^ 53"
  shows "fl64 (of_int n) = Finite (of_int n)"
proof -
  from bitlen_bounds [OF assms(1)] have b1: "1 \<le> bitlen n"
    and lo: "2 ^ nat (bitlen n - 1) \<le> n" and hi: "n < 2 ^ nat (bitlen n)" by simp_all
  have b53: "bitlen n \<le> 53"
  proof (rule ccontr)
    assume "\<not> bitlen n \<le> 53"
    then have "53 \<le> nat (bitlen n - 1)" by simp
    then have "(2::int) ^ 53 \<le> 2 ^ nat (bitlen n - 1)" by (intro power_increasing) simp_all
    with lo assms(2) show False by simp
  qed
  have fl: "floor_log2 (of_int n) = bitlen n - 1"
  proof -
    have "(2::rat) ^ nat (bitlen n - 1) \<le> of_int n"
      using lo by (metis of_int_le_iff of_int_numeral of_int_power)
    then show ?thesis using b1 by (simp add: floor_log2_def bitlen_one pow2_def)
  qed
  define k where "k = nat (53 - bitlen n)"
  have e: "max (floor_log2 (of_int n) - 52) (- 1074) = - int k"
    using b1 b53 by (simp add: fl k_def)
  have ulp: "pow2 (- int k) = 1 / 2 ^ k"
    by (cases "k = 0") (simp_all add: pow2_def)
  have q: "of_int n / (1 / 2 ^ k) = (of_int (n * 2 ^ k) :: rat)"
    by simp
  have r: "round_pos (of_int n) = of_int n"
    unfolding round_pos_def Let_def e ulp q round_half_even_of_int by simp
  have "\<lfloor>(of_int n :: rat)\<rfloor> < 2 ^ 1024"
  proof -
    have "n < 2 ^ 53" by (rule assms(2))
    also have "(2::int) ^ 53 < 2 ^ 1024" by simp
    finally show ?thesis by simp
  qed
  then show ?thesis using assms(1) by (simp add: fl64_def r Let_def)
qed

lemma fl64_two_53: "fl64 (2 ^ 53) = Finite (2 ^ 53)"
  by code_simp

lemma fl64_of_nat:
  assumes "n \<le> 2 ^ 53"
  shows "fl64 (of_nat n) = Finite (of_nat n)"
proof (cases "n = 0")
  case True
  then show ?thesis by (simp add: fl64_def)
next
  case False
  show ?thesis
  proof (cases "n = 2 ^ 53")
    case True
    with fl64_two_53 show ?thesis by simp
  next
    case F2: False
    with assms False have "0 < int n" "int n < 2 ^ 53" by simp_all
    then have "fl64 (of_int (int n)) = Finite (of_int (int n))" by (rule fl64_of_int_small)
    then show ?thesis by simp
  qed
qed


lemma js_neg_neg: "js_neg (js_neg a) = a"
  by (cases a) simp_all




section \<open>Dashboard statistics: properties\<close>

lemma foldl_quantity_nat:
  "a + sum_list ns \<le> 2 ^ 53 \<Longrightarrow>
   foldl js_add (Finite (of_nat a)) (map (\<lambda>n. Finite (of_nat n)) ns) = Finite (of_nat (a + sum_list ns))"
proof (induction ns arbitrary: a)
  case Nil
  then show ?case by simp
next
  case (Cons n ns)
  from Cons.prems have le: "a + n \<le> 2 ^ 53" and rest: "(a + n) + sum_list ns \<le> 2 ^ 53"
    by simp_all
  have "js_add (Finite (of_nat a)) (Finite (of_nat n)) = fl64 (of_nat (a + n))"
    by simp
  also have "\<dots> = Finite (of_nat (a + n))"
    using le by (rule fl64_of_nat)
  finally have "js_add (Finite (of_nat a)) (Finite (of_nat n)) = Finite (of_nat (a + n))" .
  with Cons.IH [OF rest] show ?case
    by (simp add: add.assoc)
qed

lemma totalItemsInStock_quantities:
  "totalItemsInStock s = foldl js_add (Finite 0) (map quantity (inventoryItems s))"
  by (simp add: totalItemsInStock_def foldl_map)

lemma totalItemsInStock_nat:
  assumes "map quantity (inventoryItems s) = map (\<lambda>n. Finite (of_nat n)) ns" "sum_list ns \<le> 2 ^ 53"
  shows "totalItemsInStock s = Finite (of_nat (sum_list ns))"
proof -
  have "foldl js_add (Finite (of_nat 0)) (map (\<lambda>n. Finite (of_nat n)) ns) = Finite (of_nat (0 + sum_list ns))"
    using assms(2) by (intro foldl_quantity_nat) simp
  then show ?thesis
    by (simp add: totalItemsInStock_quantities assms(1))
qed

lemma lowStockItemsCount_quantities:
  "lowStockItemsCount s = length (filter (\<lambda>q. js_le q (Finite 10)) (map quantity (inventoryItems s)))"
  by (simp add: lowStockItemsCount_def LOW_STOCK_THRESHOLD_def filter_map comp_def)

lemma lowStockItemsCount_card:
  "lowStockItemsCount s =
     card {i. i < length (inventoryItems s) \<and> js_le (quantity (inventoryItems s ! i)) (Finite 10)}"
  by (simp add: lowStockItemsCount_def LOW_STOCK_THRESHOLD_def length_filter_conv_card)

lemma lowStockItemsCount_nat:
  assumes "map quantity (inventoryItems s) = map (\<lambda>n. Finite (of_nat n)) ns"
  shows "lowStockItemsCount s = length (filter (\<lambda>n. n \<le> 10) ns)"
proof -
  have "js_le (Finite (of_nat n)) (Finite 10) = (n \<le> 10)" for n :: nat
  proof -
    have "((of_nat n :: rat) \<le> of_nat 10) = (n \<le> 10)" by (rule of_nat_le_iff)
    then show ?thesis by simp
  qed
  then show ?thesis
    by (simp add: lowStockItemsCount_quantities assms filter_map comp_def)
qed

text \<open>
  Claim C6, as stated, fails: the total quantity is added in binary64 arithmetic, and
  for the quantities \<open>2^53\<close> and 1 the result is \<open>2^53\<close>, not their sum.
\<close>

theorem total_quantity_rounds:
  "map quantity (inventoryItems bulkState) = [Finite 9007199254740992, Finite 1]
   \<and> totalItemsInStock bulkState = Finite 9007199254740992
   \<and> totalItemsInStock bulkState \<noteq> Finite (9007199254740992 + 1)"
  by code_simp

text \<open>
  Claim C6, amended. The statistics are computed from the whole collection
  \<^verbatim>\<open>inventoryItems\<close> of the state, whatever the search term, the category, the sort
  configuration and the page are. The total quantity is the sum of the quantities of
  all items when the quantities are non-negative integers whose sum is at most \<open>2^53\<close>
  (it is added in binary64 arithmetic); the count of unique SKUs is the number of rows
  (nothing is deduplicated); the low-stock count is the number of rows with quantity at
  most 10. For the quantities 5, 150, 8, 30, 15, 60, 12 the total is 280 and the
  low-stock count 2.
\<close>

theorem dashboard_counts:
  "(map quantity (inventoryItems s) = map (\<lambda>n. Finite (of_nat n)) ns \<and> sum_list ns \<le> 2 ^ 53 \<longrightarrow>
      totalItemsInStock s = Finite (of_nat (sum_list ns)))
   \<and> uniqueProductSKUs s = length (inventoryItems s)
   \<and> lowStockItemsCount s =
       card {i. i < length (inventoryItems s) \<and> js_le (quantity (inventoryItems s ! i)) (Finite 10)}
   \<and> (map quantity (inventoryItems s) = map (\<lambda>n. Finite (of_nat n)) ns \<longrightarrow>
        lowStockItemsCount s = length (filter (\<lambda>n. n \<le> 10) ns))
   \<and> (map quantity (inventoryItems s) = map (\<lambda>n. Finite (of_nat n)) [5, 150, 8, 30, 15, 60, 12] \<longrightarrow>
        totalItemsInStock s = Finite 280 \<and> lowStockItemsCount s = 2)
   \<and> totalItemsInStock (s\<lparr>searchTerm := t, selectedCategory := c, sortConfig := cfg,
                            currentPage := p, itemsPerPage := n\<rparr>) = totalItemsInStock s
   \<and> uniqueProductSKUs (s\<lparr>searchTerm := t, selectedCategory := c, sortConfig := cfg,
                            currentPage := p, itemsPerPage := n\<rparr>) = uniqueProductSKUs s
   \<and> lowStockItemsCount (s\<lparr>searchTerm := t, selectedCategory := c, sortConfig := cfg,
                             currentPage := p, itemsPerPage := n\<rparr>) = lowStockItemsCount s"
proof -
  have a: "map quantity (inventoryItems s) = map (\<lambda>n. Finite (of_nat n)) ns \<and> sum_list ns \<le> 2 ^ 53 \<longrightarrow>
      totalItemsInStock s = Finite (of_nat (sum_list ns))"
    using totalItemsInStock_nat by blast
  have b: "map quantity (inventoryItems s) = map (\<lambda>n. Finite (of_nat n)) ns \<longrightarrow>
        lowStockItemsCount s = length (filter (\<lambda>n. n \<le> 10) ns)"
    using lowStockItemsCount_nat by blast
  have c: "map quantity (inventoryItems s) = map (\<lambda>n. Finite (of_nat n)) [5, 150, 8, 30, 15, 60, 12] \<longrightarrow>
        totalItemsInStock s = Finite 280 \<and> lowStockItemsCount s = 2"
  proof
    assume q: "map quantity (inventoryItems s) = map (\<lambda>n. Finite (of_nat n)) [5, 150, 8, 30, 15, 60, 12]"
    have "sum_list [5, 150, 8, 30, 15, 60, 12] \<le> (2::nat) ^ 53" by simp
    with q have "totalItemsInStock s = Finite (of_nat (sum_list [5, 150, 8, 30, 15, 60, 12]))"
      by (rule totalItemsInStock_nat)
    moreover from q have "lowStockItemsCount s = length (filter (\<lambda>n. n \<le> 10) [5, 150, 8, 30, 15, 60, 12::nat])"
      by (rule lowStockItemsCount_nat)
    ultimately show "totalItemsInStock s = Finite 280 \<and> lowStockItemsCount s = 2"
      by simp
  qed
  from a b c show ?thesis
    by (simp add: uniqueProductSKUs_def lowStockItemsCount_card [symmetric])
       (simp add: totalItemsInStock_def lowStockItemsCount_def)
qed

lemma dashboard_example:
  "map quantity (inventoryItems loadedState) = map (\<lambda>n. Finite (of_nat n)) [5, 150, 8, 30, 15, 60, 12]
   \<and> uniqueProductSKUs loadedState = 7"
  by code_simp

theorem dashboard_counts_witness:
  "map quantity (inventoryItems loadedState) = map (\<lambda>n. Finite (of_nat n)) [5, 150, 8, 30, 15, 60, 12]
   \<and> sum_list [5, 150, 8, 30, 15, 60, 12] \<le> (2::nat) ^ 53
   \<and> totalItemsInStock loadedState = Finite 280
   \<and> lowStockItemsCount loadedState = 2
   \<and> uniqueProductSKUs loadedState = 7
   \<and> totalItemsInStock (loadedState\<lparr>searchTerm := ''mouse''\<rparr>) = Finite 280"
proof -
  note t = dashboard_counts [where s = loadedState and ns = "[5, 150, 8, 30, 15, 60, 12]"
      and t = "''mouse''" and c = "selectedCategory loadedState" and cfg = "sortConfig loadedState"
      and p = "currentPage loadedState" and n = "itemsPerPage loadedState"]
  have "totalItemsInStock loadedState = Finite 280" "lowStockItemsCount loadedState = 2"
    using t dashboard_example by blast+
  moreover have "totalItemsInStock (loadedState\<lparr>searchTerm := ''mouse''\<rparr>) = totalItemsInStock loadedState"
    using t by simp
  ultimately show ?thesis using dashboard_example by simp
qed

section \<open>Pagination: properties\<close>

lemma slice_nat: "slice xs (int m) (int m + int n) = take n (drop m xs)"
proof (cases "m \<le> length xs")
  case True
  show ?thesis
  proof (cases "m + n \<le> length xs")
    case T2: True
    with True show ?thesis
      by (simp add: slice_def Let_def min_def max_def)
  next
    case False
    with True have "nat (int (length xs) - int m) = length xs - m" "length xs - m \<le> n"
      by linarith+
    with True False show ?thesis
      by (simp add: slice_def Let_def min_def max_def)
  qed
next
  case False
  then show ?thesis
    by (simp add: slice_def Let_def min_def max_def)
qed

lemma paginatedItems_take_drop:
  assumes "1 \<le> page" "0 \<le> pageSize"
  shows "paginatedItems xs page pageSize = take (nat pageSize) (drop (nat ((page - 1) * pageSize)) xs)"
proof -
  have s: "0 \<le> (page - 1) * pageSize" using assms by simp
  obtain m where m: "(page - 1) * pageSize = int m"
    using s nonneg_int_cases by blast
  obtain n where n: "pageSize = int n"
    using assms(2) nonneg_int_cases by blast
  show ?thesis
    unfolding paginatedItems_def Let_def m unfolding n
    by (simp add: slice_nat)
qed

text \<open>
  Claim C4. For a page number from 1 on and a page size, the page consists of exactly the
  items at the indices from \<open>(page - 1) * pageSize\<close> up to, not including,
  \<open>page * pageSize\<close>, as far as the list goes; when \<open>page * pageSize\<close> reaches the
  length of the list, the page has \<open>max 0 (length - (page - 1) * pageSize)\<close> items; a page
  that starts at or behind the end of the list is empty. The function is total: there is
  no failure and no item is taken from another position.
\<close>

theorem paginate_page_range:
  assumes "1 \<le> page" and "0 \<le> pageSize"
  shows "paginatedItems xs page pageSize = take (nat pageSize) (drop (nat ((page - 1) * pageSize)) xs)
    \<and> (\<forall>j < length (paginatedItems xs page pageSize).
          paginatedItems xs page pageSize ! j = xs ! (nat ((page - 1) * pageSize) + j))
    \<and> int (length (paginatedItems xs page pageSize))
        = max 0 (min (page * pageSize) (int (length xs)) - (page - 1) * pageSize)
    \<and> (int (length xs) \<le> page * pageSize \<longrightarrow>
         int (length (paginatedItems xs page pageSize)) = max 0 (int (length xs) - (page - 1) * pageSize))
    \<and> (int (length xs) \<le> (page - 1) * pageSize \<longrightarrow> paginatedItems xs page pageSize = [])"
proof -
  let ?r = "paginatedItems xs page pageSize"
  obtain m where m: "(page - 1) * pageSize = int m"
    using assms nonneg_int_cases [of "(page - 1) * pageSize"] by auto
  obtain n where n: "pageSize = int n"
    using assms(2) nonneg_int_cases by blast
  have pp: "page * pageSize = int m + int n"
    using m n by (simp add: algebra_simps)
  have r: "?r = take n (drop m xs)"
    using paginatedItems_take_drop [OF assms, of xs] m n by simp
  have a: "?r = take (nat pageSize) (drop (nat ((page - 1) * pageSize)) xs)"
    by (rule paginatedItems_take_drop [OF assms])
  have b: "\<forall>j < length ?r. ?r ! j = xs ! (nat ((page - 1) * pageSize) + j)"
    unfolding r m by (auto simp: nth_drop)
  have len: "length ?r = min n (length xs - m)"
    unfolding r by simp
  have c: "int (length ?r) = max 0 (min (page * pageSize) (int (length xs)) - (page - 1) * pageSize)"
    unfolding len pp m by linarith
  have d: "int (length xs) \<le> page * pageSize \<longrightarrow>
         int (length ?r) = max 0 (int (length xs) - (page - 1) * pageSize)"
    unfolding len pp m by linarith
  have e: "int (length xs) \<le> (page - 1) * pageSize \<longrightarrow> ?r = []"
    unfolding r m by simp
  from a b c d e show ?thesis by blast
qed

theorem paginate_page_range_witness:
  "(1::int) \<le> 1 \<and> (0::int) \<le> 10 \<and> (10::int) \<in> ItemsPerPage
   \<and> map item_id (paginatedItems (initialItems isoString (steadyClock 0)) 1 10) = [''1'', ''2'', ''3'', ''4'', ''5'', ''6'', ''7'']
   \<and> int (length (paginatedItems (initialItems isoString (steadyClock 0)) 1 10)) = max 0 (7 - (1 - 1) * 10)
   \<and> paginatedItems (initialItems isoString (steadyClock 0)) 2 10 = []
   \<and> map item_id (paginatedItems (initialItems isoString (steadyClock 0) @ initialItems isoString (steadyClock 0)) 2 10)
       = [''4'', ''5'', ''6'', ''7'']"
  using paginate_page_range [of 1 10 "initialItems isoString (steadyClock 0)"]
        paginate_page_range [of 2 10 "initialItems isoString (steadyClock 0)"]
        paginate_page_range [of 2 10 "initialItems isoString (steadyClock 0) @ initialItems isoString (steadyClock 0)"]
  by (simp add: initialItems_def ItemsPerPage_def)

section \<open>Filtering and sorting: properties\<close>

lemma str_includes_iff: "str_includes s t \<longleftrightarrow> (\<exists>pre post. s = pre @ t @ post)"
proof (induction s)
  case Nil
  then show ?case by auto
next
  case (Cons c s)
  have "(\<exists>pre post. c # s = pre @ t @ post) \<longleftrightarrow> prefix t (c # s) \<or> (\<exists>pre post. s = pre @ t @ post)"
  proof
    assume "\<exists>pre post. c # s = pre @ t @ post"
    then obtain pre post where e: "c # s = pre @ t @ post" by blast
    show "prefix t (c # s) \<or> (\<exists>pre post. s = pre @ t @ post)"
    proof (cases pre)
      case Nil
      with e show ?thesis by (auto simp: prefix_def)
    next
      case (Cons p pre')
      with e have "s = pre' @ t @ post" by simp
      then show ?thesis by blast
    qed
  next
    assume "prefix t (c # s) \<or> (\<exists>pre post. s = pre @ t @ post)"
    then show "\<exists>pre post. c # s = pre @ t @ post"
    proof
      assume "prefix t (c # s)"
      then obtain post where "c # s = t @ post" by (auto simp: prefix_def)
      then have "c # s = [] @ t @ post" by simp
      then show ?thesis by blast
    next
      assume "\<exists>pre post. s = pre @ t @ post"
      then obtain pre post where "s = pre @ t @ post" by blast
      then have "c # s = (c # pre) @ t @ post" by simp
      then show ?thesis by blast
    qed
  qed
  with Cons show ?case by simp
qed

lemma str_includes_lower:
  "str_includes (toLowerCase field) (toLowerCase term) = contains_case_insensitive toLowerCase field term"
  by (simp add: str_includes_iff contains_case_insensitive_def)

lemma set_insort_cmp: "set (insort_cmp cmp x ys) = insert x (set ys)"
  by (induction ys) auto

lemma set_array_sort: "set (array_sort cmp xs) = set xs"
  by (induction xs) (simp_all add: array_sort_def set_insort_cmp)

lemma length_insort_cmp: "length (insort_cmp cmp x ys) = Suc (length ys)"
  by (induction ys) auto

lemma length_array_sort: "length (array_sort cmp xs) = length xs"
  by (induction xs) (simp_all add: array_sort_def length_insort_cmp)

lemma query_as_composition:
  "filteredAndSortedItems toLowerCase localeCompare items term cat cfg =
     (let kept = filter (\<lambda>item.
            (term \<noteq> [] \<longrightarrow>
               contains_case_insensitive toLowerCase (name item) term \<or>
               contains_case_insensitive toLowerCase (sku item) term \<or>
               contains_case_insensitive toLowerCase (category item) term) \<and>
            (cat \<noteq> [] \<longrightarrow> category item = cat)) items
      in case key cfg of
           None \<Rightarrow> kept
         | Some k \<Rightarrow> array_sort (sortComparator localeCompare (direction cfg) k) kept)"
  by (cases "term = []"; cases "cat = []"; cases "key cfg")
     (simp_all add: filteredAndSortedItems_def Let_def str_includes_lower conj_commute)

text \<open>
  Claim C1. The query applies its steps in a fixed order. It keeps exactly the items
  that pass both filters: when the search term is not empty, the name, the SKU or the
  category contains the term as a case-insensitive substring; when the category is not
  empty, the category of the item is equal to it. Sorting, when a key is set, is applied
  to the list that the two filters leave.
\<close>

theorem query_steps_in_order:
  "filteredAndSortedItems toLowerCase localeCompare items term cat cfg =
     (let kept = filter (\<lambda>item.
            (term \<noteq> [] \<longrightarrow>
               contains_case_insensitive toLowerCase (name item) term \<or>
               contains_case_insensitive toLowerCase (sku item) term \<or>
               contains_case_insensitive toLowerCase (category item) term) \<and>
            (cat \<noteq> [] \<longrightarrow> category item = cat)) items
      in case key cfg of
           None \<Rightarrow> kept
         | Some k \<Rightarrow> array_sort (sortComparator localeCompare (direction cfg) k) kept)
   \<and> set (filteredAndSortedItems toLowerCase localeCompare items term cat cfg) =
       {item \<in> set items.
          (term \<noteq> [] \<longrightarrow>
             contains_case_insensitive toLowerCase (name item) term \<or>
             contains_case_insensitive toLowerCase (sku item) term \<or>
             contains_case_insensitive toLowerCase (category item) term) \<and>
          (cat \<noteq> [] \<longrightarrow> category item = cat)}"
proof -
  have "set (filteredAndSortedItems toLowerCase localeCompare items term cat cfg) =
       {item \<in> set items.
          (term \<noteq> [] \<longrightarrow>
             contains_case_insensitive toLowerCase (name item) term \<or>
             contains_case_insensitive toLowerCase (sku item) term \<or>
             contains_case_insensitive toLowerCase (category item) term) \<and>
          (cat \<noteq> [] \<longrightarrow> category item = cat)}"
    unfolding query_as_composition Let_def
    by (cases "key cfg") (simp_all add: set_array_sort)
  with query_as_composition show ?thesis by blast
qed

lemma query_example_us:
  "map item_id (filteredAndSortedItems asciiLower ordinalCompare (initialItems isoString (steadyClock 0))
      ''us'' ''Accessories'' \<lparr>key = Some KQuantity, direction = Ascending\<rparr>) = [''6'', ''2'']"
  by code_simp

theorem query_steps_in_order_witness:
  "map item_id (filteredAndSortedItems asciiLower ordinalCompare (initialItems isoString (steadyClock 0))
      ''us'' ''Accessories'' \<lparr>key = Some KQuantity, direction = Ascending\<rparr>) = [''6'', ''2'']
   \<and> set (filteredAndSortedItems asciiLower ordinalCompare (initialItems isoString (steadyClock 0))
      ''us'' ''Accessories'' \<lparr>key = Some KQuantity, direction = Ascending\<rparr>) =
       {item \<in> set (initialItems isoString (steadyClock 0)).
          (''us'' \<noteq> [] \<longrightarrow>
             contains_case_insensitive asciiLower (name item) ''us'' \<or>
             contains_case_insensitive asciiLower (sku item) ''us'' \<or>
             contains_case_insensitive asciiLower (category item) ''us'') \<and>
          (''Accessories'' \<noteq> [] \<longrightarrow> category item = ''Accessories'')}"
  using query_steps_in_order [of asciiLower ordinalCompare "initialItems isoString (steadyClock 0)"
      "''us''" "''Accessories''" "\<lparr>key = Some KQuantity, direction = Ascending\<rparr>"]
    query_example_us
  by blast

section \<open>The sort comparator: properties\<close>

lemma compareValues_mixed:
  "typeof v \<noteq> typeof w \<Longrightarrow> compareValues lc dir v w = Finite 0"
  by (cases v; cases w) (simp_all add: compareValues_def Let_def)

lemma compareValues_descending:
  "compareValues lc Descending v w = js_neg (compareValues lc Ascending v w)"
  by (simp add: compareValues_def)

text \<open>
  Claim C2. The comparator of the sort compares the values of the two items at the key:
  two numbers by subtraction, two strings by \<^verbatim>\<open>localeCompare\<close>; when the direction is
  descending the result is negated; values of two different types compare equal (the
  result is 0). Every case returns a number: the comparator has no failing branch.
\<close>

theorem comparator_by_type:
  "compareValues lc Ascending (JNumber x) (JNumber y) = js_sub x y
   \<and> compareValues lc Ascending (JString s) (JString t) = lc s t
   \<and> compareValues lc Descending v w = js_neg (compareValues lc Ascending v w)
   \<and> (typeof v \<noteq> typeof w \<longrightarrow> compareValues lc dir v w = Finite 0)
   \<and> sortComparator lc dir k a b = compareValues lc dir (getField k a) (getField k b)
   \<and> sortComparator lc Ascending KQuantity a b = js_sub (quantity a) (quantity b)
   \<and> sortComparator lc Ascending KPrice a b = js_sub (price a) (price b)
   \<and> sortComparator lc Ascending KId a b = lc (item_id a) (item_id b)
   \<and> sortComparator lc Ascending KName a b = lc (name a) (name b)
   \<and> sortComparator lc Ascending KCategory a b = lc (category a) (category b)
   \<and> sortComparator lc Ascending KSku a b = lc (sku a) (sku b)
   \<and> sortComparator lc Ascending KLastUpdated a b = lc (lastUpdated a) (lastUpdated b)
   \<and> sortComparator lc Descending k a b = js_neg (sortComparator lc Ascending k a b)"
proof -
  have "typeof v \<noteq> typeof w \<longrightarrow> compareValues lc dir v w = Finite 0"
    by (simp add: compareValues_mixed)
  then show ?thesis
    by (simp add: compareValues_def sortComparator_def)
qed

lemma comparator_examples:
  "compareValues ordinalCompare Ascending (JNumber (Finite 8)) (JNumber (Finite 5)) = Finite 3
   \<and> compareValues ordinalCompare Descending (JNumber (Finite 8)) (JNumber (Finite 5)) = Finite (- 3)
   \<and> compareValues ordinalCompare Descending (JString ''Hub'') (JString ''Desk'') = Finite (- 1)
   \<and> compareValues ordinalCompare Ascending (JNumber PosInfinity) (JNumber PosInfinity) = NaN
   \<and> typeof (JNumber (Finite 8)) \<noteq> typeof (JString ''8'')"
  by code_simp

theorem comparator_by_type_witness:
  "typeof (JNumber (Finite 8)) \<noteq> typeof (JString ''8'')
   \<and> compareValues ordinalCompare Descending (JNumber (Finite 8)) (JString ''8'') = Finite 0
   \<and> compareValues ordinalCompare Ascending (JNumber (Finite 8)) (JNumber (Finite 5)) = Finite 3
   \<and> compareValues ordinalCompare Descending (JNumber (Finite 8)) (JNumber (Finite 5)) = Finite (- 3)
   \<and> compareValues ordinalCompare Descending (JString ''Hub'') (JString ''Desk'') = Finite (- 1)"
  using comparator_by_type [of ordinalCompare "Finite 8" "Finite 5" "''Hub''" "''Desk''"
      "JNumber (Finite 8)" "JString ''8''" Descending]
    comparator_examples
  by blast

section \<open>Stability of the sort\<close>













section \<open>Item CRUD operations: properties\<close>

lemma inventoryItems_submit_existing:
  "inventoryItems (handleItemFormSubmit toISOString dateNow newDate (ExistingItem u) s) =
     mapEdited toISOString newDate u 0 (inventoryItems s)"
  by (simp add: handleItemFormSubmit_def setInventoryItems_def)

lemma inventoryItems_submit_new:
  "inventoryItems (handleItemFormSubmit toISOString dateNow newDate (NewItem p) s) =
     \<lparr>name = name p, quantity = quantity p, price = price p, category = category p, sku = sku p,
      item_id = toString dateNow, lastUpdated = toISOString (newDate 0)\<rparr> # inventoryItems s"
  by (simp add: handleItemFormSubmit_def setInventoryItems_def Let_def)

lemma inventoryItems_delete:
  "inventoryItems (confirmDeleteItem (handleDeleteRequest itemId itemName s)) =
     filter (\<lambda>item. item_id item \<noteq> itemId) (inventoryItems s)"
  by (simp add: confirmDeleteItem_def handleDeleteRequest_def setInventoryItems_def)

lemma confirmDeleteItem_again:
  "confirmDeleteItem (confirmDeleteItem s) = confirmDeleteItem s"
  by (simp add: confirmDeleteItem_def setInventoryItems_def split: option.splits)

lemma mapEdited_absent:
  "item_id u \<notin> item_id ` set xs \<Longrightarrow> mapEdited toISOString newDate u k xs = xs"
  by (induction xs arbitrary: k) auto

lemma filter_delete_absent:
  "i \<notin> item_id ` set xs \<Longrightarrow> filter (\<lambda>item. item_id item \<noteq> i) xs = xs"
  by (induction xs) auto

text \<open>
  Claim C8. An update or a delete with an id that no item of the collection has leaves
  the collection as it is; deleting the same id a second time leaves the collection as
  it is after the first time, and so does pressing the confirmation a second time. The
  handlers are total: \<^verbatim>\<open>map\<close> and \<^verbatim>\<open>filter\<close> have no failing case.
\<close>

theorem update_delete_absent_noop:
  "(item_id u \<notin> item_id ` set (inventoryItems s) \<longrightarrow>
      inventoryItems (handleItemFormSubmit toISOString dateNow newDate (ExistingItem u) s) = inventoryItems s)
   \<and> (itemId \<notin> item_id ` set (inventoryItems s) \<longrightarrow>
      inventoryItems (confirmDeleteItem (handleDeleteRequest itemId itemName s)) = inventoryItems s)
   \<and> inventoryItems (confirmDeleteItem (handleDeleteRequest itemId itemName
        (confirmDeleteItem (handleDeleteRequest itemId itemName s))))
      = inventoryItems (confirmDeleteItem (handleDeleteRequest itemId itemName s))
   \<and> confirmDeleteItem (confirmDeleteItem (handleDeleteRequest itemId itemName s))
      = confirmDeleteItem (handleDeleteRequest itemId itemName s)"
  by (simp add: inventoryItems_submit_existing inventoryItems_delete confirmDeleteItem_again
      mapEdited_absent filter_delete_absent)

lemma absent_example:
  "item_id ghostItem \<notin> item_id ` set (inventoryItems loadedState)
   \<and> ''99'' \<notin> item_id ` set (inventoryItems loadedState)
   \<and> map item_id (inventoryItems loadedState) = [''1'', ''2'', ''3'', ''4'', ''5'', ''6'', ''7'']
   \<and> map item_id (inventoryItems (confirmDeleteItem (handleDeleteRequest ''2'' ''Wireless Mouse'' loadedState)))
       = [''1'', ''3'', ''4'', ''5'', ''6'', ''7'']"
  by code_simp

theorem update_delete_absent_noop_witness:
  "item_id ghostItem \<notin> item_id ` set (inventoryItems loadedState)
   \<and> inventoryItems (handleItemFormSubmit isoString 1700000000000 (steadyClock 1700000000000)
         (ExistingItem ghostItem) loadedState)
       = inventoryItems loadedState
   \<and> ''99'' \<notin> item_id ` set (inventoryItems loadedState)
   \<and> inventoryItems (confirmDeleteItem (handleDeleteRequest ''99'' ''Ghost'' loadedState))
       = inventoryItems loadedState
   \<and> map item_id (inventoryItems (confirmDeleteItem (handleDeleteRequest ''2'' ''Wireless Mouse''
        (confirmDeleteItem (handleDeleteRequest ''2'' ''Wireless Mouse'' loadedState)))))
       = [''1'', ''3'', ''4'', ''5'', ''6'', ''7'']"
  using update_delete_absent_noop [of ghostItem loadedState isoString 1700000000000
      "steadyClock 1700000000000" "''99''" "''Ghost''"]
    update_delete_absent_noop [of ghostItem loadedState isoString 1700000000000
      "steadyClock 1700000000000" "''2''" "''Wireless Mouse''"]
    absent_example
  by metis

section \<open>Updating an item: properties\<close>

lemma length_mapEdited: "length (mapEdited toISOString newDate u k xs) = length xs"
  by (induction xs arbitrary: k) auto

text \<open>The item at a position, by the number of clock readings made before it.\<close>

lemma nth_mapEdited:
  "j < length xs \<Longrightarrow>
   mapEdited toISOString newDate u k xs ! j =
     (if item_id (xs ! j) = item_id u
      then u\<lparr>lastUpdated := toISOString (newDate (k + length (filter (\<lambda>item. item_id item = item_id u) (take j xs))))\<rparr>
      else xs ! j)"
proof (induction xs arbitrary: k j)
  case Nil
  then show ?case by simp
next
  case (Cons x xs)
  show ?case
  proof (cases j)
    case 0
    then show ?thesis by simp
  next
    case (Suc i)
    with Cons.prems have i: "i < length xs" by simp
    show ?thesis
      using Cons.IH [OF i] Suc by simp
  qed
qed

lemma mapEdited_distinct:
  assumes "distinct (map item_id xs)" "j < length xs" "item_id (xs ! j) = item_id u"
  shows "mapEdited toISOString newDate u k xs = xs[j := u\<lparr>lastUpdated := toISOString (newDate k)\<rparr>]"
  using assms
proof (induction xs arbitrary: j)
  case Nil
  then show ?case by simp
next
  case (Cons x xs)
  show ?case
  proof (cases j)
    case 0
    with Cons.prems have x: "item_id x = item_id u" by simp
    with Cons.prems(1) have "item_id u \<notin> item_id ` set xs" by auto
    then have "mapEdited toISOString newDate u (Suc k) xs = xs" by (rule mapEdited_absent)
    with x 0 show ?thesis by simp
  next
    case (Suc i)
    with Cons.prems have i: "i < length xs" "item_id (xs ! i) = item_id u" "distinct (map item_id xs)"
      by simp_all
    then have "item_id u \<in> item_id ` set xs" by (metis image_eqI nth_mem)
    with Cons.prems(1) have "item_id x \<noteq> item_id u" by auto
    with Cons.IH [OF i(3) i(1) i(2)] Suc show ?thesis by simp
  qed
qed

lemma query_unfiltered_set:
  "set (filteredAndSortedItems toLowerCase localeCompare items [] [] cfg) = set items"
  unfolding query_as_composition Let_def
  by (cases "key cfg") (simp_all add: set_array_sort)

lemma query_unfiltered_unsorted:
  "key cfg = None \<Longrightarrow> filteredAndSortedItems toLowerCase localeCompare items [] [] cfg = items"
  unfolding query_as_composition Let_def by simp


text \<open>
  Claim C9. An update with an id that is in the collection puts, at every position whose
  item has that id, the input with \<^verbatim>\<open>lastUpdated\<close> set to the time read from the clock
  for that position, and leaves every other position as it is; the id and all other
  fields are those of the input. When the ids of the collection are distinct, exactly
  one position changes. A query without filters on the new collection contains every
  updated item.
\<close>

theorem update_replaces_matching:
  assumes "item_id u \<in> item_id ` set (inventoryItems s)"
  shows "let items = inventoryItems s;
             items' = inventoryItems (handleItemFormSubmit toISOString dateNow newDate (ExistingItem u) s)
         in length items' = length items
          \<and> (\<forall>j < length items. item_id (items ! j) \<noteq> item_id u \<longrightarrow> items' ! j = items ! j)
          \<and> (\<forall>j < length items. item_id (items ! j) = item_id u \<longrightarrow>
                items' ! j = u\<lparr>lastUpdated := toISOString
                    (newDate (length (filter (\<lambda>item. item_id item = item_id u) (take j items))))\<rparr>
                \<and> item_id (items' ! j) = item_id u \<and> name (items' ! j) = name u
                \<and> quantity (items' ! j) = quantity u \<and> price (items' ! j) = price u
                \<and> category (items' ! j) = category u \<and> sku (items' ! j) = sku u
                \<and> items' ! j \<in> set (filteredAndSortedItems toLowerCase localeCompare items' [] [] cfg))
          \<and> (\<exists>j < length items. item_id (items ! j) = item_id u)
          \<and> (distinct (map item_id items) \<longrightarrow>
               (\<exists>j < length items. item_id (items ! j) = item_id u
                  \<and> items' = items[j := u\<lparr>lastUpdated := toISOString (newDate 0)\<rparr>]))
          \<and> (key cfg = None \<longrightarrow>
               filteredAndSortedItems toLowerCase localeCompare items' [] [] cfg = items')"
proof -
  let ?xs = "inventoryItems s"
  let ?items' = "inventoryItems (handleItemFormSubmit toISOString dateNow newDate (ExistingItem u) s)"
  have m: "?items' = mapEdited toISOString newDate u 0 ?xs"
    by (rule inventoryItems_submit_existing)
  have len: "length ?items' = length ?xs"
    unfolding m by (rule length_mapEdited)
  have other: "\<forall>j < length ?xs. item_id (?xs ! j) \<noteq> item_id u \<longrightarrow> ?items' ! j = ?xs ! j"
    unfolding m by (simp add: nth_mapEdited)
  have same: "\<forall>j < length ?xs. item_id (?xs ! j) = item_id u \<longrightarrow>
                ?items' ! j = u\<lparr>lastUpdated := toISOString
                    (newDate (length (filter (\<lambda>item. item_id item = item_id u) (take j ?xs))))\<rparr>"
    unfolding m by (simp add: nth_mapEdited)
  have mem: "\<forall>j < length ?xs. ?items' ! j \<in> set (filteredAndSortedItems toLowerCase localeCompare ?items' [] [] cfg)"
    using len by (simp add: query_unfiltered_set)
  obtain j where j: "j < length ?xs" "item_id (?xs ! j) = item_id u"
    using assms by (auto simp: in_set_conv_nth)
  then have ex: "\<exists>j < length ?xs. item_id (?xs ! j) = item_id u" by blast
  have one: "distinct (map item_id ?xs) \<longrightarrow>
      (\<exists>j < length ?xs. item_id (?xs ! j) = item_id u
         \<and> ?items' = ?xs[j := u\<lparr>lastUpdated := toISOString (newDate 0)\<rparr>])"
    unfolding m using j mapEdited_distinct [of ?xs j u toISOString newDate 0] by blast
  have q2: "key cfg = None \<longrightarrow>
      filteredAndSortedItems toLowerCase localeCompare ?items' [] [] cfg = ?items'"
    by (simp add: query_unfiltered_unsorted)
  have all: "\<forall>j < length ?xs. item_id (?xs ! j) = item_id u \<longrightarrow>
                ?items' ! j = u\<lparr>lastUpdated := toISOString
                    (newDate (length (filter (\<lambda>item. item_id item = item_id u) (take j ?xs))))\<rparr>
                \<and> item_id (?items' ! j) = item_id u \<and> name (?items' ! j) = name u
                \<and> quantity (?items' ! j) = quantity u \<and> price (?items' ! j) = price u
                \<and> category (?items' ! j) = category u \<and> sku (?items' ! j) = sku u
                \<and> ?items' ! j \<in> set (filteredAndSortedItems toLowerCase localeCompare ?items' [] [] cfg)"
  proof (intro allI impI)
    fix i assume i: "i < length ?xs" "item_id (?xs ! i) = item_id u"
    with same have e: "?items' ! i = u\<lparr>lastUpdated := toISOString
                    (newDate (length (filter (\<lambda>item. item_id item = item_id u) (take i ?xs))))\<rparr>"
      by blast
    from mem i(1) have "?items' ! i \<in> set (filteredAndSortedItems toLowerCase localeCompare ?items' [] [] cfg)"
      by blast
    with e show "?items' ! i = u\<lparr>lastUpdated := toISOString
                    (newDate (length (filter (\<lambda>item. item_id item = item_id u) (take i ?xs))))\<rparr>
                \<and> item_id (?items' ! i) = item_id u \<and> name (?items' ! i) = name u
                \<and> quantity (?items' ! i) = quantity u \<and> price (?items' ! i) = price u
                \<and> category (?items' ! i) = category u \<and> sku (?items' ! i) = sku u
                \<and> ?items' ! i \<in> set (filteredAndSortedItems toLowerCase localeCompare ?items' [] [] cfg)"
      by simp
  qed
  from len other all ex one q2 show ?thesis
    unfolding Let_def by blast
qed

lemma update_example:
  "item_id editedMouse \<in> item_id ` set (inventoryItems loadedState)
   \<and> distinct (map item_id (inventoryItems loadedState))
   \<and> inventoryItems (handleItemFormSubmit isoString 1700000000000 (steadyClock 1700000000000)
        (ExistingItem editedMouse) loadedState)
      = (inventoryItems loadedState)[1 := editedMouse\<lparr>lastUpdated := ''2023-11-14T22:13:20.000Z''\<rparr>]
   \<and> isoString (steadyClock 1700000000000 0) = ''2023-11-14T22:13:20.000Z''
   \<and> map item_id (inventoryItems afterSecondCreate)
      = [''1700000000000'', ''1700000000000'', ''1'', ''2'', ''3'', ''4'', ''5'', ''6'', ''7'']
   \<and> map lastUpdated (take 3 (inventoryItems (handleItemFormSubmit isoString 1700000005000
        (tickingClock 1700000005000) (ExistingItem editedTwin) afterSecondCreate)))
      = [''2023-11-14T22:13:25.000Z'', ''2023-11-14T22:13:25.001Z'', ''1969-12-30T00:00:00.000Z'']"
  by code_simp

theorem update_replaces_matching_witness:
  "item_id editedMouse \<in> item_id ` set (inventoryItems loadedState)
   \<and> inventoryItems (handleItemFormSubmit isoString 1700000000000 (steadyClock 1700000000000)
        (ExistingItem editedMouse) loadedState)
      = (inventoryItems loadedState)[1 := editedMouse\<lparr>lastUpdated := ''2023-11-14T22:13:20.000Z''\<rparr>]
   \<and> length (inventoryItems (handleItemFormSubmit isoString 1700000000000 (steadyClock 1700000000000)
        (ExistingItem editedMouse) loadedState)) = length (inventoryItems loadedState)
   \<and> map lastUpdated (take 3 (inventoryItems (handleItemFormSubmit isoString 1700000005000
        (tickingClock 1700000005000) (ExistingItem editedTwin) afterSecondCreate)))
      = [''2023-11-14T22:13:25.000Z'', ''2023-11-14T22:13:25.001Z'', ''1969-12-30T00:00:00.000Z'']"
proof -
  have a: "item_id editedMouse \<in> item_id ` set (inventoryItems loadedState)"
    using update_example by blast
  from update_replaces_matching [OF a, of isoString 1700000000000 "steadyClock 1700000000000"
      asciiLower ordinalCompare "\<lparr>key = Some KLastUpdated, direction = Descending\<rparr>"]
  have "length (inventoryItems (handleItemFormSubmit isoString 1700000000000 (steadyClock 1700000000000)
        (ExistingItem editedMouse) loadedState)) = length (inventoryItems loadedState)"
    unfolding Let_def by blast
  with update_example show ?thesis by blast
qed

section \<open>Creating an item: properties\<close>

lemma digit_char_inj:
  assumes "a < 10" "b < 10" "''0123456789'' ! a = ''0123456789'' ! b"
  shows "a = b"
proof -
  have d: "distinct ''0123456789''" by simp
  have "a < length ''0123456789''" "b < length ''0123456789''" using assms by simp_all
  with d assms(3) show ?thesis using nth_eq_iff_index_eq by blast
qed

lemma digit_char_in: "a < 10 \<Longrightarrow> ''0123456789'' ! a \<in> set ''0123456789''"
  by (rule nth_mem) simp

lemma digits_small: "n < 10 \<Longrightarrow> digits n = [''0123456789'' ! nat n]"
  by (subst digits.simps) simp

lemma digits_large: "\<not> n < 10 \<Longrightarrow> digits n = digits (n div 10) @ [''0123456789'' ! nat (n mod 10)]"
  by (subst digits.simps) simp

lemma digits_not_Nil: "digits n \<noteq> []"
  by (cases "n < 10") (simp_all add: digits_small digits_large)

lemma digits_chars: "0 \<le> n \<Longrightarrow> set (digits n) \<subseteq> set ''0123456789''"
proof (induction n rule: digits.induct)
  case (1 n)
  show ?case
  proof (cases "n < 10")
    case True
    with "1.prems" have "nat n < 10" by simp
    then have "''0123456789'' ! nat n \<in> set ''0123456789''" by (rule digit_char_in)
    moreover have "digits n = [''0123456789'' ! nat n]" using True by (rule digits_small)
    ultimately show ?thesis by simp
  next
    case False
    have "nat (n mod 10) < 10" by simp
    then have c: "''0123456789'' ! nat (n mod 10) \<in> set ''0123456789''" by (rule digit_char_in)
    have "set (digits (n div 10)) \<subseteq> set ''0123456789''"
      using "1.IH" False "1.prems" by simp
    moreover have "digits n = digits (n div 10) @ [''0123456789'' ! nat (n mod 10)]"
      using False by (rule digits_large)
    ultimately show ?thesis using c by simp
  qed
qed

lemma digits_inj: "0 \<le> n \<Longrightarrow> 0 \<le> m \<Longrightarrow> digits n = digits m \<Longrightarrow> n = m"
proof (induction n arbitrary: m rule: digits.induct)
  case (1 n)
  show ?case
  proof (cases "n < 10")
    case n: True
    show ?thesis
    proof (cases "m < 10")
      case True
      with n "1.prems" have "''0123456789'' ! nat n = ''0123456789'' ! nat m"
        by (simp add: digits_small)
      moreover have "nat n < 10" "nat m < 10" using n True by simp_all
      ultimately have "nat n = nat m" using digit_char_inj by blast
      with "1.prems" show ?thesis by simp
    next
      case False
      with n "1.prems"(3) have "digits (m div 10) = []"
        by (simp add: digits_small digits_large)
      then show ?thesis by (simp add: digits_not_Nil)
    qed
  next
    case n: False
    show ?thesis
    proof (cases "m < 10")
      case True
      with n "1.prems"(3) have "digits (n div 10) = []"
        by (simp add: digits_small digits_large)
      then show ?thesis by (simp add: digits_not_Nil)
    next
      case False
      with n "1.prems"(3) have e: "digits (n div 10) = digits (m div 10)"
        and c: "''0123456789'' ! nat (n mod 10) = ''0123456789'' ! nat (m mod 10)"
        by (simp_all add: digits_large)
      have "n div 10 = m div 10"
        using "1.IH" [OF n _ _ e] "1.prems" by simp
      moreover have "nat (n mod 10) = nat (m mod 10)"
        using c digit_char_inj [of "nat (n mod 10)" "nat (m mod 10)"] by simp
      then have "n mod 10 = m mod 10" by simp
      ultimately show ?thesis by (metis div_mult_mod_eq)
    qed
  qed
qed

lemma toString_inj: "toString n = toString m \<Longrightarrow> n = m"
proof -
  assume e: "toString n = toString m"
  have minus: "CHR ''-'' \<notin> set ''0123456789''" by simp
  have no: "0 \<le> k \<Longrightarrow> CHR ''-'' # xs \<noteq> digits k" for k xs
  proof
    assume "0 \<le> k" "CHR ''-'' # xs = digits k"
    then have "CHR ''-'' \<in> set (digits k)" by (metis list.set_intros(1))
    with digits_chars [OF \<open>0 \<le> k\<close>] minus show False by blast
  qed
  show ?thesis
  proof (cases "n < 0"; cases "m < 0")
    assume "n < 0" "m < 0"
    with e have "digits (- n) = digits (- m)" by (simp add: toString_def)
    with \<open>n < 0\<close> \<open>m < 0\<close> have "- n = - m" using digits_inj [of "- n" "- m"] by simp
    then show ?thesis by simp
  next
    assume "n < 0" "\<not> m < 0"
    with e no [of m "digits (- n)"] show ?thesis by (simp add: toString_def)
  next
    assume "\<not> n < 0" "m < 0"
    with e no [of n "digits (- m)"] show ?thesis by (simp add: toString_def)
  next
    assume "\<not> n < 0" "\<not> m < 0"
    with e show ?thesis using digits_inj [of n m] by (simp add: toString_def)
  qed
qed


text \<open>
  Claim C5, as stated, fails: the id is the clock reading, so an item created at the same
  reading as an item of the collection gets the id of that item. Here two items are
  created at the reading 1700000000000.
\<close>

theorem create_id_collision:
  "item_id (hd (inventoryItems (handleItemFormSubmit isoString 1700000000000 (steadyClock 1700000000000)
       (NewItem cablePayload) afterFirstCreate)))
     \<in> item_id ` set (inventoryItems afterFirstCreate)
   \<and> map item_id (inventoryItems (handleItemFormSubmit isoString 1700000000000 (steadyClock 1700000000000)
       (NewItem cablePayload) afterFirstCreate))
     = [''1700000000000'', ''1700000000000'', ''1'', ''2'', ''3'', ''4'', ''5'', ''6'', ''7'']"
  by code_simp

text \<open>
  Claim C5, amended. Creating an item puts in front of the collection, which is otherwise
  unchanged, an item with the fields of the payload, with the decimal text of the clock
  reading \<^verbatim>\<open>Date.now()\<close> as id and the ISO text of the clock reading \<^verbatim>\<open>new Date()\<close> of
  the call as \<^verbatim>\<open>lastUpdated\<close>. The id differs from every id of the collection that is the decimal
  text of another clock reading or number; if all ids of the collection are such and
  distinct, the ids stay distinct.
\<close>

theorem create_prepends_timestamp_id:
  "inventoryItems (handleItemFormSubmit toISOString dateNow newDate (NewItem p) s) =
     \<lparr>name = name p, quantity = quantity p, price = price p, category = category p, sku = sku p,
      item_id = toString dateNow, lastUpdated = toISOString (newDate 0)\<rparr> # inventoryItems s
   \<and> (\<forall>x \<in> set (inventoryItems s). \<forall>t. item_id x = toString t \<and> t \<noteq> dateNow \<longrightarrow>
         item_id x \<noteq> toString dateNow)
   \<and> ((\<forall>x \<in> set (inventoryItems s). \<exists>t. t \<noteq> dateNow \<and> item_id x = toString t) \<longrightarrow>
         toString dateNow \<notin> item_id ` set (inventoryItems s))
   \<and> ((\<forall>x \<in> set (inventoryItems s). \<exists>t. t \<noteq> dateNow \<and> item_id x = toString t) \<and>
        distinct (map item_id (inventoryItems s)) \<longrightarrow>
         distinct (map item_id (inventoryItems (handleItemFormSubmit toISOString dateNow newDate (NewItem p) s))))"
proof -
  have a: "\<forall>x \<in> set (inventoryItems s). \<forall>t. item_id x = toString t \<and> t \<noteq> dateNow \<longrightarrow>
         item_id x \<noteq> toString dateNow"
    using toString_inj by metis
  have b: "toString dateNow \<notin> item_id ` set (inventoryItems s)"
    if "\<forall>x \<in> set (inventoryItems s). \<exists>t. t \<noteq> dateNow \<and> item_id x = toString t"
    using that a by (metis imageE)
  have c: "distinct (map item_id (inventoryItems (handleItemFormSubmit toISOString dateNow newDate (NewItem p) s)))"
    if "\<forall>x \<in> set (inventoryItems s). \<exists>t. t \<noteq> dateNow \<and> item_id x = toString t"
       "distinct (map item_id (inventoryItems s))"
    using b [OF that(1)] that(2) by (simp add: inventoryItems_submit_new)
  from a b c show ?thesis
    by (simp only: inventoryItems_submit_new) blast
qed

lemma create_example:
  "map item_id (inventoryItems loadedState) = map toString [1, 2, 3, 4, 5, 6, 7]
   \<and> distinct (map item_id (inventoryItems loadedState))
   \<and> map item_id (inventoryItems afterFirstCreate)
       = [''1700000000000'', ''1'', ''2'', ''3'', ''4'', ''5'', ''6'', ''7'']
   \<and> lastUpdated (hd (inventoryItems afterFirstCreate)) = ''2023-11-14T22:13:20.000Z''
   \<and> tl (inventoryItems afterFirstCreate) = inventoryItems loadedState"
  by code_simp

theorem create_prepends_timestamp_id_witness:
  "map item_id (inventoryItems loadedState) = map toString [1, 2, 3, 4, 5, 6, 7]
   \<and> distinct (map item_id (inventoryItems loadedState))
   \<and> toString 1700000000000 \<notin> item_id ` set (inventoryItems loadedState)
   \<and> distinct (map item_id (inventoryItems afterFirstCreate))
   \<and> map item_id (inventoryItems afterFirstCreate)
       = [''1700000000000'', ''1'', ''2'', ''3'', ''4'', ''5'', ''6'', ''7'']
   \<and> tl (inventoryItems afterFirstCreate) = inventoryItems loadedState"
proof -
  have h: "\<forall>x \<in> set (inventoryItems loadedState). \<exists>t. t \<noteq> 1700000000000 \<and> item_id x = toString t"
  proof
    fix x assume "x \<in> set (inventoryItems loadedState)"
    then have "item_id x \<in> set (map item_id (inventoryItems loadedState))" by simp
    then have "item_id x \<in> set (map toString [1, 2, 3, 4, 5, 6, 7])"
      using create_example by simp
    then obtain t where "t \<in> set [1, 2, 3, 4, 5, 6, 7::int]" "item_id x = toString t"
      by auto
    moreover from this have "t \<noteq> 1700000000000" by auto
    ultimately show "\<exists>t. t \<noteq> 1700000000000 \<and> item_id x = toString t" by blast
  qed
  have d: "distinct (map item_id (inventoryItems loadedState))"
    using create_example by blast
  from create_prepends_timestamp_id [of isoString 1700000000000 "steadyClock 1700000000000" lampPayload
      loadedState] h d
  have "toString 1700000000000 \<notin> item_id ` set (inventoryItems loadedState)"
    and "distinct (map item_id (inventoryItems afterFirstCreate))"
    unfolding afterFirstCreate_def by blast+
  with d create_example show ?thesis by blast
qed

section \<open>Saving the collection: properties\<close>











lemma step_load_fails:
  "loadItems parse (initialItems toISOString t0) ls s = None \<Longrightarrow>
   step parse stringify toISOString t0 LoadTimeout (Mounted s, ls) = (Crashed, ls)"
  by simp









section \<open>Total inventory value: properties\<close>

lemma totalInventoryValue_snoc:
  "totalInventoryValue (s\<lparr>inventoryItems := xs @ [x]\<rparr>) =
     js_add (totalInventoryValue (s\<lparr>inventoryItems := xs\<rparr>)) (js_mul (quantity x) (price x))"
  by (simp add: totalInventoryValue_def)

lemma foldl_value_exact:
  "no_rounding acc xs \<Longrightarrow>
   foldl (\<lambda>sum item. js_add sum (js_mul (quantity item) (price item))) (Finite acc) xs
     = Finite (acc + exactInventoryValue xs)"
proof (induction xs arbitrary: acc)
  case Nil
  then show ?case by (simp add: exactInventoryValue_def)
next
  case (Cons x xs)
  from Cons.prems obtain q p where qp: "quantity x = Finite q" "price x = Finite p"
    by (cases "quantity x"; cases "price x") simp_all
  with Cons.prems have p: "fl64 (q * p) = Finite (q * p)"
    and s: "fl64 (acc + q * p) = Finite (acc + q * p)"
    and r: "no_rounding (acc + q * p) xs"
    by simp_all
  have "js_add (Finite acc) (js_mul (quantity x) (price x)) = Finite (acc + q * p)"
    by (simp add: qp p s)
  with Cons.IH [OF r] qp show ?case
    by (simp add: exactInventoryValue_def)
qed

text \<open>
  Claim C7, as stated, fails: the value is computed in binary64 arithmetic, not in a
  decimal-safe representation. For one item with quantity 3 and price \<^verbatim>\<open>0.1\<close> the result
  is the binary64 value that JavaScript prints as \<^verbatim>\<open>0.30000000000000004\<close>; it is neither the
  exact product of the quantity and the stored price nor \<open>3/10\<close>.
\<close>

theorem total_value_not_exact:
  "inventoryItems tenCentState = [tenCentItem]
   \<and> totalInventoryValue tenCentState = Finite (5404319552844596 / 18014398509481984)
   \<and> totalInventoryValue tenCentState \<noteq> Finite (exactInventoryValue (inventoryItems tenCentState))
   \<and> totalInventoryValue tenCentState \<noteq> Finite (3 / 10)"
  by code_simp

text \<open>
  Claim C7, amended. The total inventory value is accumulated from 0 over the collection
  of the state, item by item in its order, in binary64 arithmetic: each product
  \<^verbatim>\<open>quantity * price\<close> and each partial sum is rounded to the nearest binary64 value, and
  becomes an infinity when it reaches \<open>2^1024\<close>. It is the exact sum of
  \<^verbatim>\<open>quantity * price\<close> whenever the quantities and prices are finite and no product and
  no partial sum needs rounding. The value itself is not rounded to two decimal places.
\<close>

theorem total_value_binary64:
  "totalInventoryValue (s\<lparr>inventoryItems := []\<rparr>) = Finite 0
   \<and> totalInventoryValue (s\<lparr>inventoryItems := xs @ [x]\<rparr>) =
       js_add (totalInventoryValue (s\<lparr>inventoryItems := xs\<rparr>)) (js_mul (quantity x) (price x))
   \<and> js_add (Finite a) (Finite b) = fl64 (a + b) \<and> js_mul (Finite a) (Finite b) = fl64 (a * b)
   \<and> (no_rounding 0 (inventoryItems s) \<longrightarrow>
        totalInventoryValue s = Finite (exactInventoryValue (inventoryItems s)))"
proof -
  have "no_rounding 0 (inventoryItems s) \<longrightarrow>
        totalInventoryValue s = Finite (exactInventoryValue (inventoryItems s))"
    using foldl_value_exact [of 0 "inventoryItems s"] by (simp add: totalInventoryValue_def)
  moreover have "totalInventoryValue (s\<lparr>inventoryItems := []\<rparr>) = Finite 0"
    by (simp add: totalInventoryValue_def)
  ultimately show ?thesis
    using totalInventoryValue_snoc [where s = s and xs = xs and x = x] by simp
qed

lemma value_example:
  "no_rounding 0 (inventoryItems threeItemState)
   \<and> exactInventoryValue (inventoryItems threeItemState) = 14136
   \<and> \<not> no_rounding 0 (inventoryItems tenCentState)
   \<and> \<not> no_rounding 0 (inventoryItems loadedState)
   \<and> totalInventoryValue loadedState = Finite (61569 / 2)"
  by code_simp

theorem total_value_binary64_witness:
  "no_rounding 0 (inventoryItems threeItemState)
   \<and> exactInventoryValue (inventoryItems threeItemState) = 14136
   \<and> totalInventoryValue threeItemState = Finite 14136"
  using total_value_binary64 [where s = threeItemState] value_example
  by simp


text \<open>A product that reaches \<open>2^1024\<close> is an infinity, and needs rounding.\<close>

lemma total_value_overflow:
  "totalInventoryValue hugePriceState = PosInfinity \<and> \<not> no_rounding 0 (inventoryItems hugePriceState)"
  by code_simp

end
